theory Spec2Isabelle
  imports Complex_Main
begin

section \<open>Values of the host language\<close>

text \<open>
  The editor is a React component (\<^verbatim>\<open>src/App.tsx\<close>). Its state is the tuple of
  \<^verbatim>\<open>useState\<close> cells declared at the top of \<^verbatim>\<open>App\<close>; every handler reads the
  cells of the render it was created in and writes new values with the setters. The
  embedding passes that state explicitly.

  A JavaScript \<^verbatim>\<open>number\<close> is an IEEE 754 binary64 value. It is modelled as a
  real number or one of the three non-finite values; the sign of zero is not modelled.
  An arithmetic operation computes the exact real result and hands it to a rounding,
  which gives the number that is stored. Division by zero and the arithmetic of the
  non-finite values follow ECMAScript.
\<close>

datatype jsnum = Fin real | PosInf | NegInf | NaN

fun isFin :: "jsnum \<Rightarrow> bool" where
  "isFin (Fin _) = True"
| "isFin _ = False"

subsection \<open>Rounding\<close>

text \<open>The number of binary digits of a natural number.\<close>

fun bit_length :: "nat \<Rightarrow> nat" where
  "bit_length n = (if n = 0 then 0 else Suc (bit_length (n div 2)))"

declare bit_length.simps [simp del]

text \<open>
  For \<open>x > 0\<close>, the integer \<open>e\<close> with \<open>2 ^ e \<le> x < 2 ^ (e + 1)\<close>; and the power of two
  with an integer exponent.
\<close>

definition ilog2 :: "real \<Rightarrow> int" where
  "ilog2 x = (if 1 \<le> x then int (bit_length (nat \<lfloor>x\<rfloor>)) - 1
              else - int (bit_length (nat (\<lceil>1 / x\<rceil> - 1))))"

definition pow2 :: "int \<Rightarrow> real" where
  "pow2 q = (if 0 \<le> q then 2 ^ nat q else 1 / 2 ^ nat (- q))"

text \<open>The nearest integer, a tie going to the even one.\<close>

definition round_half_even :: "real \<Rightarrow> int" where
  "round_half_even t =
     (let f = \<lfloor>t\<rfloor>; d = t - of_int f
      in if d < 1 / 2 then f else if 1 / 2 < d then f + 1
         else if even f then f else f + 1)"

text \<open>
  The rounding of the engine: to the nearest binary64 value, ties to even. The exponent
  \<open>e\<close> of the result is that of \<open>x\<close>, and at least \<open>-1022\<close> (below that the values are
  subnormal); the result is a multiple of \<open>2 ^ (e - 52)\<close>; a result of \<open>2 ^ 1024\<close> or more
  is an infinity.
\<close>

definition binary64 :: "real \<Rightarrow> jsnum" where
  "binary64 x =
     (if x = 0 then Fin 0
      else let a = \<bar>x\<bar>;
               e = max (ilog2 a) (- 1022);
               q = e - 52;
               r = of_int (round_half_even (a / pow2 q)) * pow2 q
           in if 2 ^ 1024 \<le> r then (if 0 < x then PosInf else NegInf)
              else Fin (if 0 < x then r else - r))"

text \<open>
  No rounding: the real result is kept. A handler over \<open>exact\<close> is the idealisation of
  the program in which a bound on a coordinate can be stated without the error terms of
  the rounding.
\<close>

definition exact :: "real \<Rightarrow> jsnum" where
  "exact x = Fin x"

subsection \<open>Arithmetic\<close>

text \<open>
  \<^verbatim>\<open>a / b\<close> for two unsigned integers (the \<^verbatim>\<open>naturalWidth\<close> and \<^verbatim>\<open>width\<close>
  attributes of an image element are \<^verbatim>\<open>unsigned long\<close>), rounded by \<open>rnd\<close>: a zero
  divisor gives \<^verbatim>\<open>NaN\<close> for \<^verbatim>\<open>0 / 0\<close> and \<^verbatim>\<open>Infinity\<close> otherwise; nothing is
  thrown.
\<close>

definition jsdiv_nat :: "(real \<Rightarrow> jsnum) \<Rightarrow> nat \<Rightarrow> nat \<Rightarrow> jsnum" where
  "jsdiv_nat rnd a b =
     (if b = 0 then (if a = 0 then NaN else PosInf)
      else rnd (real a / real b))"

text \<open>\<^verbatim>\<open>a * b\<close> on numbers, and \<^verbatim>\<open>a - b\<close> on finite numbers.\<close>

fun jsmul :: "(real \<Rightarrow> jsnum) \<Rightarrow> jsnum \<Rightarrow> jsnum \<Rightarrow> jsnum" where
  "jsmul rnd NaN _ = NaN"
| "jsmul rnd _ NaN = NaN"
| "jsmul rnd (Fin a) (Fin b) = rnd (a * b)"
| "jsmul rnd (Fin a) PosInf = (if a = 0 then NaN else if 0 < a then PosInf else NegInf)"
| "jsmul rnd (Fin a) NegInf = (if a = 0 then NaN else if 0 < a then NegInf else PosInf)"
| "jsmul rnd PosInf (Fin b) = (if b = 0 then NaN else if 0 < b then PosInf else NegInf)"
| "jsmul rnd NegInf (Fin b) = (if b = 0 then NaN else if 0 < b then NegInf else PosInf)"
| "jsmul rnd PosInf PosInf = PosInf"
| "jsmul rnd PosInf NegInf = NegInf"
| "jsmul rnd NegInf PosInf = NegInf"
| "jsmul rnd NegInf NegInf = PosInf"

definition jssub :: "(real \<Rightarrow> jsnum) \<Rightarrow> real \<Rightarrow> real \<Rightarrow> jsnum" where
  "jssub rnd a b = rnd (a - b)"

text \<open>
  \<^verbatim>\<open>Math.round\<close>: the nearest integer, a tie going towards \<^verbatim>\<open>+Infinity\<close>; the
  non-finite values are returned as they are. The result is computed without rounding
  error: a binary64 value of \<open>2 ^ 52\<close> or more is an integer already.
\<close>

fun jsround :: "jsnum \<Rightarrow> jsnum" where
  "jsround (Fin a) = Fin (of_int \<lfloor>a + 1 / 2\<rfloor>)"
| "jsround v = v"

text \<open>Truthiness of a number, as \<^verbatim>\<open>||\<close> tests it: \<^verbatim>\<open>0\<close> and \<^verbatim>\<open>NaN\<close> are falsy.\<close>

fun truthy :: "jsnum \<Rightarrow> bool" where
  "truthy NaN = False"
| "truthy (Fin a) = (a \<noteq> 0)"
| "truthy _ = True"

text \<open>
  \<^verbatim>\<open>Array.prototype.slice(start, end)\<close> with integer arguments: a negative argument
  counts from the end, both are clamped to the array, and an empty range gives the
  empty array.
\<close>

definition slice :: "'a list \<Rightarrow> int \<Rightarrow> int \<Rightarrow> 'a list" where
  "slice xs start end =
     (let len = int (length xs);
          k = (if start < 0 then max (len + start) 0 else min start len);
          final = (if end < 0 then max (len + end) 0 else min end len)
      in take (nat (final - k)) (drop (nat k) xs))"

text \<open>
  \<^verbatim>\<open>xs[i] ?? null\<close>: an index outside the array reads \<^verbatim>\<open>undefined\<close>, which
  \<^verbatim>\<open>??\<close> turns into \<^verbatim>\<open>null\<close>.
\<close>

definition index_or_null :: "'a list \<Rightarrow> int \<Rightarrow> 'a option" where
  "index_or_null xs i = (if 0 \<le> i \<and> i < int (length xs) then Some (xs ! nat i) else None)"

text \<open>
  \<^verbatim>\<open>String.prototype.trim\<close>. A string is a list of characters; white space is the
  ASCII part of ECMAScript's white space and line terminators.
\<close>

definition is_space :: "char \<Rightarrow> bool" where
  "is_space c = (c = CHR '' '' \<or> c = CHR 0x09 \<or> c = CHR 0x0A \<or> c = CHR 0x0B
                 \<or> c = CHR 0x0C \<or> c = CHR 0x0D)"

definition trim :: "string \<Rightarrow> string" where
  "trim s = rev (dropWhile is_space (rev (dropWhile is_space s)))"

section \<open>The state of the editor\<close>

text \<open>
  A \<^verbatim>\<open>File\<close> as \<^verbatim>\<open>dataURLtoFile\<close> builds it: the bytes, the name and the MIME
  type.
\<close>

record jsfile =
  bits :: "nat list"
  fname :: string
  mime :: string

text \<open>A hotspot \<^verbatim>\<open>{ x, y }\<close>.\<close>

record point =
  point_x :: jsnum
  point_y :: jsnum

text \<open>A crop rectangle of \<^verbatim>\<open>react-image-crop\<close>, in pixels of the rendered image.\<close>

record pixelCrop =
  crop_x :: real
  crop_y :: real
  crop_width :: real
  crop_height :: real

text \<open>The attributes of an \<^verbatim>\<open>HTMLImageElement\<close> that the code reads.\<close>

record image =
  naturalWidth :: nat
  naturalHeight :: nat
  width :: nat
  height :: nat

datatype tab = Retouch | Freestyle | Background | Adjust | Filters | Crop | Chat

datatype role = User | Model

text \<open>
  The message part that a \<^verbatim>\<open>catch\<close> block computes with
  \<^verbatim>\<open>err instanceof Error ? err.message : <unknown error>\<close>, and the texts that
  \<^verbatim>\<open>setError\<close> is called with. The literals of the source are Chinese; each one is a
  constructor here, named after the handler and the check that first sets it
  (\<^verbatim>\<open>handleApplyFreestyle\<close> reports a missing image with the literal of
  \<^verbatim>\<open>handleApplyAdjustment\<close>, \<open>NoImageForAdjustment\<close>).
\<close>

datatype thrown = ErrorObject string | OtherValue

datatype reason = Message string | UnknownError

fun errorMessage :: "thrown \<Rightarrow> reason" where
  "errorMessage (ErrorObject m) = Message m"
| "errorMessage OtherValue = UnknownError"

datatype errtext =
    NoImageToEdit | EmptyPrompt | NoHotspot | GenerateFailed reason
  | NoImageForFilter | FilterFailed reason
  | NoImageForAdjustment | AdjustmentFailed reason
  | NoImageForBackground | BackgroundFailed reason
  | FreestyleFailed reason
  | NoCropSelected | CropFailed reason

record session =
  history :: "jsfile list"
  historyIndex :: int
  prompt :: string
  isLoading :: bool
  error :: "errtext option"
  editHotspot :: "point option"
  displayHotspot :: "point option"
  activeTab :: tab
  crop :: "pixelCrop option"
  completedCrop :: "pixelCrop option"
  isPreviewOpen :: bool
  chatHistory :: "(role \<times> string) list"

text \<open>The initial values of the \<^verbatim>\<open>useState\<close> cells.\<close>

definition initial :: session where
  "initial = \<lparr>history = [], historyIndex = - 1, prompt = [], isLoading = False,
              error = None, editHotspot = None, displayHotspot = None,
              activeTab = Retouch, crop = None, completedCrop = None,
              isPreviewOpen = False, chatHistory = []\<rparr>"

definition currentImage :: "session \<Rightarrow> jsfile option" where
  "currentImage s = index_or_null (history s) (historyIndex s)"

definition originalImage :: "session \<Rightarrow> jsfile option" where
  "originalImage s = index_or_null (history s) 0"

definition canUndo :: "session \<Rightarrow> bool" where
  "canUndo s = (0 < historyIndex s)"

definition canRedo :: "session \<Rightarrow> bool" where
  "canRedo s = (historyIndex s < int (length (history s)) - 1)"

section \<open>Version history\<close>

text \<open>
  \<^verbatim>\<open>addImageToHistory\<close> is a \<^verbatim>\<open>useCallback\<close> closure over \<^verbatim>\<open>history\<close> and
  \<^verbatim>\<open>historyIndex\<close>: it computes the new array from the values of the render that
  created it (\<open>c\<close>) and writes the result into the current state (\<open>s\<close>). A handler that
  runs to completion inside one render has \<open>c = s\<close>.
\<close>

definition addImageToHistory :: "session \<Rightarrow> jsfile \<Rightarrow> session \<Rightarrow> session" where
  "addImageToHistory c newImageFile s =
     (let newHistory = slice (history c) 0 (historyIndex c + 1) @ [newImageFile]
      in s\<lparr>history := newHistory,
            historyIndex := int (length newHistory) - 1,
            crop := None,
            completedCrop := None\<rparr>)"

definition handleImageUpload :: "jsfile \<Rightarrow> session \<Rightarrow> session" where
  "handleImageUpload f s =
     s\<lparr>error := None, history := [f], historyIndex := 0, editHotspot := None,
       displayHotspot := None, activeTab := Retouch, crop := None,
       completedCrop := None, chatHistory := []\<rparr>"

definition handleUndo :: "session \<Rightarrow> session" where
  "handleUndo s = (if canUndo s then s\<lparr>historyIndex := historyIndex s - 1\<rparr> else s)"

definition handleRedo :: "session \<Rightarrow> session" where
  "handleRedo s = (if canRedo s then s\<lparr>historyIndex := historyIndex s - 1\<rparr> else s)"

section \<open>Data URLs and cropping\<close>

text \<open>\<^verbatim>\<open>String.prototype.split\<close> with a one-character separator.\<close>

fun split_on :: "char \<Rightarrow> string \<Rightarrow> string list" where
  "split_on sep [] = [[]]"
| "split_on sep (c # cs) =
     (if c = sep then [] # split_on sep cs
      else (case split_on sep cs of
              [] \<Rightarrow> [[c]]
            | w # ws \<Rightarrow> (c # w) # ws))"

text \<open>
  The regular expression \<^verbatim>\<open>/:(.*?);/\<close>: the leftmost colon that is followed, with
  no line terminator in between, by a semicolon; the group is the text between the two.
\<close>

fun until_semicolon :: "string \<Rightarrow> string option" where
  "until_semicolon [] = None"
| "until_semicolon (c # cs) =
     (if c = CHR '';'' then Some []
      else if c = CHR 0x0A \<or> c = CHR 0x0D then None
      else map_option ((#) c) (until_semicolon cs))"

fun mimeMatch :: "string \<Rightarrow> string option" where
  "mimeMatch [] = None"
| "mimeMatch (c # cs) =
     (if c = CHR '':'' then
        (case until_semicolon cs of Some g \<Rightarrow> Some g | None \<Rightarrow> mimeMatch cs)
      else mimeMatch cs)"

text \<open>The decimal digits of a number, as a template literal prints \<^verbatim>\<open>Date.now()\<close>.\<close>

fun decimal :: "nat \<Rightarrow> string" where
  "decimal n =
     (if n < 10 then [char_of (48 + n)]
      else decimal (n div 10) @ [char_of (48 + n mod 10)])"

declare decimal.simps [simp del]

text \<open>
  The \<^verbatim>\<open>type\<close> of a \<^verbatim>\<open>File\<close>: the constructor stores the given type in ASCII
  lower case, or the empty string when it has a character outside \<^verbatim>\<open>U+0020\<close> to
  \<^verbatim>\<open>U+007E\<close>.
\<close>

definition printable :: "char \<Rightarrow> bool" where
  "printable ch = (32 \<le> (of_char ch :: nat) \<and> (of_char ch :: nat) \<le> 126)"

definition ascii_lower :: "char \<Rightarrow> char" where
  "ascii_lower ch =
     (if 65 \<le> (of_char ch :: nat) \<and> (of_char ch :: nat) \<le> 90
      then char_of ((of_char ch :: nat) + 32) else ch)"

definition file_type :: "string \<Rightarrow> string" where
  "file_type t = (if list_all printable t then map ascii_lower t else [])"

text \<open>
  \<^verbatim>\<open>dataURLtoFile\<close>. A \<^verbatim>\<open>throw\<close> is the left summand. The browser's
  \<^verbatim>\<open>atob\<close> is a parameter: it returns the decoded string or throws.
\<close>

definition dataURLtoFile ::
  "(string \<Rightarrow> thrown + string) \<Rightarrow> string \<Rightarrow> string \<Rightarrow> thrown + jsfile" where
  "dataURLtoFile atob dataurl filename =
     (let arr = split_on (CHR '','') dataurl in
      if length arr < 2 then Inl (ErrorObject ''Invalid data URL'')
      else (case mimeMatch (arr ! 0) of
              None \<Rightarrow> Inl (ErrorObject ''Could not parse MIME type from data URL'')
            | Some m \<Rightarrow>
                if m = [] then Inl (ErrorObject ''Could not parse MIME type from data URL'')
                else (case atob (arr ! 1) of
                        Inl err \<Rightarrow> Inl err
                      | Inr bstr \<Rightarrow>
                          Inr \<lparr>bits = map (\<lambda>ch. of_char ch mod 256) bstr,
                               fname = filename, mime = file_type m\<rparr>)))"

text \<open>
  The \<^verbatim>\<open>width\<close> and \<^verbatim>\<open>height\<close> of a canvas are \<^verbatim>\<open>unsigned long\<close>
  attributes that reflect a content attribute with a default (300 and 150). Assigning a
  number converts it as Web IDL does: a non-finite number becomes 0, a finite one is cut
  to its integer part and taken modulo \<open>2 ^ 32\<close>. The attribute takes the result when
  it is at most \<open>2 ^ 31 - 1\<close>, and its default otherwise.
\<close>

definition to_unsigned_long :: "jsnum \<Rightarrow> nat" where
  "to_unsigned_long v =
     (case v of
        Fin x \<Rightarrow> nat ((if 0 \<le> x then \<lfloor>x\<rfloor> else - \<lfloor>- x\<rfloor>) mod 2 ^ 32)
      | _ \<Rightarrow> 0)"

definition set_dimension :: "nat \<Rightarrow> jsnum \<Rightarrow> nat" where
  "set_dimension dflt v =
     (if to_unsigned_long v \<le> 2147483647 then to_unsigned_long v else dflt)"

text \<open>
  The canvas that \<^verbatim>\<open>getCroppedImg\<close> draws on: its \<^verbatim>\<open>width\<close> and
  \<^verbatim>\<open>height\<close>, which are the dimensions of its bitmap, the matrix set by
  \<^verbatim>\<open>setTransform\<close> and the arguments of the \<^verbatim>\<open>drawImage\<close> call.
\<close>

record drawCall =
  sx :: jsnum
  sy :: jsnum
  sWidth :: jsnum
  sHeight :: jsnum
  dx :: jsnum
  dy :: jsnum
  dWidth :: jsnum
  dHeight :: jsnum

record canvas =
  canvas_width :: nat
  canvas_height :: nat
  transform :: "jsnum \<times> jsnum \<times> jsnum \<times> jsnum \<times> jsnum \<times> jsnum"
  drawn :: "drawCall option"

text \<open>
  The state of the canvas when \<^verbatim>\<open>getCroppedImg\<close> reaches \<^verbatim>\<open>toDataURL\<close>.
  \<open>has_ctx\<close> says whether \<^verbatim>\<open>getContext('2d')\<close> returned a context,
  \<open>devicePixelRatio\<close> is \<^verbatim>\<open>window.devicePixelRatio\<close>. The arithmetic is that of
  the engine, \<open>binary64\<close>.
\<close>

definition getCroppedImg_canvas :: "bool \<Rightarrow> jsnum \<Rightarrow> image \<Rightarrow> pixelCrop \<Rightarrow> thrown + canvas" where
  "getCroppedImg_canvas has_ctx devicePixelRatio img crp =
     (let cv = \<lparr>canvas_width = 300, canvas_height = 150,
                transform = (Fin 1, Fin 0, Fin 0, Fin 1, Fin 0, Fin 0), drawn = None\<rparr>;
          scaleX = jsdiv_nat binary64 (naturalWidth img) (width img);
          scaleY = jsdiv_nat binary64 (naturalHeight img) (height img);
          cv = cv\<lparr>canvas_width := set_dimension 300 (Fin (crop_width crp))\<rparr>;
          cv = cv\<lparr>canvas_height := set_dimension 150 (Fin (crop_height crp))\<rparr>
      in if \<not> has_ctx then Inl (ErrorObject ''Could not get canvas context'')
         else
           let pixelRatio = (if truthy devicePixelRatio then devicePixelRatio else Fin 1);
               cv = cv\<lparr>canvas_width :=
                      set_dimension 300 (jsmul binary64 (Fin (crop_width crp)) pixelRatio)\<rparr>;
               cv = cv\<lparr>canvas_height :=
                      set_dimension 150 (jsmul binary64 (Fin (crop_height crp)) pixelRatio)\<rparr>;
               cv = cv\<lparr>transform := (pixelRatio, Fin 0, Fin 0, pixelRatio, Fin 0, Fin 0)\<rparr>;
               cv = cv\<lparr>drawn := Some
                      \<lparr>sx = jsmul binary64 (Fin (crop_x crp)) scaleX,
                       sy = jsmul binary64 (Fin (crop_y crp)) scaleY,
                       sWidth = jsmul binary64 (Fin (crop_width crp)) scaleX,
                       sHeight = jsmul binary64 (Fin (crop_height crp)) scaleY,
                       dx = Fin 0, dy = Fin 0,
                       dWidth = Fin (crop_width crp), dHeight = Fin (crop_height crp)\<rparr>\<rparr>
           in Inr cv)"

text \<open>\<^verbatim>\<open>getCroppedImg\<close>; the canvas's \<^verbatim>\<open>toDataURL\<close> is a parameter.\<close>

definition getCroppedImg ::
  "(canvas \<Rightarrow> string) \<Rightarrow> bool \<Rightarrow> jsnum \<Rightarrow> image \<Rightarrow> pixelCrop \<Rightarrow> thrown + string" where
  "getCroppedImg toDataURL has_ctx devicePixelRatio img crp =
     (case getCroppedImg_canvas has_ctx devicePixelRatio img crp of
        Inl err \<Rightarrow> Inl err
      | Inr cv \<Rightarrow> Inr (toDataURL cv))"

section \<open>The asynchronous handlers\<close>

text \<open>
  Each mutating handler is an \<^verbatim>\<open>async\<close> function with one \<^verbatim>\<open>await\<close>, on the call
  of the generative service (\<^verbatim>\<open>services/geminiService\<close>). It is modelled in two
  parts. \<open>_begin\<close> is the code up to the \<^verbatim>\<open>await\<close>: it returns the new state and the
  request sent to the service, or no request when a check fails. \<open>_resume\<close> is the code
  after the \<^verbatim>\<open>await\<close>: it takes the settled promise (\<open>Inl\<close> a rejection, \<open>Inr\<close>
  the data URL) and the state at that time \<open>s\<close>; \<open>c\<close> is the state of the render in
  which the handler was started, whose \<^verbatim>\<open>history\<close> and \<^verbatim>\<open>historyIndex\<close> the
  \<^verbatim>\<open>addImageToHistory\<close> closure holds. \<open>now\<close> is \<^verbatim>\<open>Date.now()\<close>.
\<close>

datatype request =
    EditedImage jsfile string point
  | FilteredImage jsfile string
  | AdjustedImage jsfile string
  | BackgroundImage jsfile string
  | FreestyleImage jsfile string

definition handleGenerate_begin :: "session \<Rightarrow> session \<times> request option" where
  "handleGenerate_begin s =
     (case currentImage s of
        None \<Rightarrow> (s\<lparr>error := Some NoImageToEdit\<rparr>, None)
      | Some img \<Rightarrow>
          if trim (prompt s) = [] then (s\<lparr>error := Some EmptyPrompt\<rparr>, None)
          else (case editHotspot s of
                  None \<Rightarrow> (s\<lparr>error := Some NoHotspot\<rparr>, None)
                | Some hs \<Rightarrow>
                    (s\<lparr>isLoading := True, error := None\<rparr>,
                     Some (EditedImage img (prompt s) hs))))"

definition handleGenerate_resume ::
  "(string \<Rightarrow> thrown + string) \<Rightarrow> nat \<Rightarrow> session \<Rightarrow> thrown + string \<Rightarrow> session \<Rightarrow> session" where
  "handleGenerate_resume atob now c settled s =
     (let s' =
        (case settled of
           Inl err \<Rightarrow> s\<lparr>error := Some (GenerateFailed (errorMessage err))\<rparr>
         | Inr url \<Rightarrow>
             (case dataURLtoFile atob url (''edited-'' @ decimal now @ ''.png'') of
                Inl err \<Rightarrow> s\<lparr>error := Some (GenerateFailed (errorMessage err))\<rparr>
              | Inr newImageFile \<Rightarrow>
                  (addImageToHistory c newImageFile s)
                    \<lparr>editHotspot := None, displayHotspot := None, prompt := []\<rparr>))
      in s'\<lparr>isLoading := False\<rparr>)"

definition handleApplyFilter_begin :: "string \<Rightarrow> session \<Rightarrow> session \<times> request option" where
  "handleApplyFilter_begin filterPrompt s =
     (case currentImage s of
        None \<Rightarrow> (s\<lparr>error := Some NoImageForFilter\<rparr>, None)
      | Some img \<Rightarrow>
          (s\<lparr>isLoading := True, error := None\<rparr>, Some (FilteredImage img filterPrompt)))"

definition handleApplyFilter_resume ::
  "(string \<Rightarrow> thrown + string) \<Rightarrow> nat \<Rightarrow> session \<Rightarrow> thrown + string \<Rightarrow> session \<Rightarrow> session" where
  "handleApplyFilter_resume atob now c settled s =
     (let s' =
        (case settled of
           Inl err \<Rightarrow> s\<lparr>error := Some (FilterFailed (errorMessage err))\<rparr>
         | Inr url \<Rightarrow>
             (case dataURLtoFile atob url (''filtered-'' @ decimal now @ ''.png'') of
                Inl err \<Rightarrow> s\<lparr>error := Some (FilterFailed (errorMessage err))\<rparr>
              | Inr newImageFile \<Rightarrow> addImageToHistory c newImageFile s))
      in s'\<lparr>isLoading := False\<rparr>)"

definition handleApplyAdjustment_begin :: "string \<Rightarrow> session \<Rightarrow> session \<times> request option" where
  "handleApplyAdjustment_begin adjustmentPrompt s =
     (case currentImage s of
        None \<Rightarrow> (s\<lparr>error := Some NoImageForAdjustment\<rparr>, None)
      | Some img \<Rightarrow>
          (s\<lparr>isLoading := True, error := None\<rparr>, Some (AdjustedImage img adjustmentPrompt)))"

definition handleApplyAdjustment_resume ::
  "(string \<Rightarrow> thrown + string) \<Rightarrow> nat \<Rightarrow> session \<Rightarrow> thrown + string \<Rightarrow> session \<Rightarrow> session" where
  "handleApplyAdjustment_resume atob now c settled s =
     (let s' =
        (case settled of
           Inl err \<Rightarrow> s\<lparr>error := Some (AdjustmentFailed (errorMessage err))\<rparr>
         | Inr url \<Rightarrow>
             (case dataURLtoFile atob url (''adjusted-'' @ decimal now @ ''.png'') of
                Inl err \<Rightarrow> s\<lparr>error := Some (AdjustmentFailed (errorMessage err))\<rparr>
              | Inr newImageFile \<Rightarrow> addImageToHistory c newImageFile s))
      in s'\<lparr>isLoading := False\<rparr>)"

definition handleApplyBackground_begin :: "string \<Rightarrow> session \<Rightarrow> session \<times> request option" where
  "handleApplyBackground_begin backgroundPrompt s =
     (case currentImage s of
        None \<Rightarrow> (s\<lparr>error := Some NoImageForBackground\<rparr>, None)
      | Some img \<Rightarrow>
          (s\<lparr>isLoading := True, error := None\<rparr>, Some (BackgroundImage img backgroundPrompt)))"

definition handleApplyBackground_resume ::
  "(string \<Rightarrow> thrown + string) \<Rightarrow> nat \<Rightarrow> session \<Rightarrow> thrown + string \<Rightarrow> session \<Rightarrow> session" where
  "handleApplyBackground_resume atob now c settled s =
     (let s' =
        (case settled of
           Inl err \<Rightarrow> s\<lparr>error := Some (BackgroundFailed (errorMessage err))\<rparr>
         | Inr url \<Rightarrow>
             (case dataURLtoFile atob url (''background-'' @ decimal now @ ''.png'') of
                Inl err \<Rightarrow> s\<lparr>error := Some (BackgroundFailed (errorMessage err))\<rparr>
              | Inr newImageFile \<Rightarrow> addImageToHistory c newImageFile s))
      in s'\<lparr>isLoading := False\<rparr>)"

definition handleApplyFreestyle_begin :: "string \<Rightarrow> session \<Rightarrow> session \<times> request option" where
  "handleApplyFreestyle_begin freestylePrompt s =
     (case currentImage s of
        None \<Rightarrow> (s\<lparr>error := Some NoImageForAdjustment\<rparr>, None)
      | Some img \<Rightarrow>
          (s\<lparr>isLoading := True, error := None\<rparr>, Some (FreestyleImage img freestylePrompt)))"

definition handleApplyFreestyle_resume ::
  "(string \<Rightarrow> thrown + string) \<Rightarrow> nat \<Rightarrow> session \<Rightarrow> thrown + string \<Rightarrow> session \<Rightarrow> session" where
  "handleApplyFreestyle_resume atob now c settled s =
     (let s' =
        (case settled of
           Inl err \<Rightarrow> s\<lparr>error := Some (FreestyleFailed (errorMessage err))\<rparr>
         | Inr url \<Rightarrow>
             (case dataURLtoFile atob url (''freestyle-'' @ decimal now @ ''.png'') of
                Inl err \<Rightarrow> s\<lparr>error := Some (FreestyleFailed (errorMessage err))\<rparr>
              | Inr newImageFile \<Rightarrow> addImageToHistory c newImageFile s))
      in s'\<lparr>isLoading := False\<rparr>)"

text \<open>
  \<^verbatim>\<open>handleCrop\<close> has no \<^verbatim>\<open>await\<close>: it runs inside one render. \<open>imgRef\<close> is
  \<^verbatim>\<open>imgRef.current\<close>.
\<close>

definition handleCrop ::
  "(string \<Rightarrow> thrown + string) \<Rightarrow> nat \<Rightarrow> (canvas \<Rightarrow> string) \<Rightarrow> bool \<Rightarrow> jsnum \<Rightarrow>
   image option \<Rightarrow> session \<Rightarrow> session" where
  "handleCrop atob now toDataURL has_ctx devicePixelRatio imgRef s =
     (case (completedCrop s, imgRef) of
        (Some crp, Some img) \<Rightarrow>
          (case getCroppedImg toDataURL has_ctx devicePixelRatio img crp of
             Inl err \<Rightarrow> s\<lparr>error := Some (CropFailed (errorMessage err))\<rparr>
           | Inr croppedImageUrl \<Rightarrow>
               (case dataURLtoFile atob croppedImageUrl (''cropped-'' @ decimal now @ ''.png'') of
                  Inl err \<Rightarrow> s\<lparr>error := Some (CropFailed (errorMessage err))\<rparr>
                | Inr newImageFile \<Rightarrow> addImageToHistory s newImageFile s))
      | _ \<Rightarrow> s\<lparr>error := Some NoCropSelected\<rparr>)"

section \<open>Pointer input\<close>

text \<open>
  \<^verbatim>\<open>handleImageClick\<close>, over a rounding \<open>rnd\<close>. \<open>img\<close> is
  \<^verbatim>\<open>e.currentTarget\<close>, \<open>rect\<close> the left and top of its bounding rectangle, \<open>e\<close>
  the \<^verbatim>\<open>clientX\<close> and \<^verbatim>\<open>clientY\<close> of the event.
\<close>

definition handleImageClick_with ::
  "(real \<Rightarrow> jsnum) \<Rightarrow> image \<Rightarrow> real \<times> real \<Rightarrow> real \<times> real \<Rightarrow> session \<Rightarrow> session" where
  "handleImageClick_with rnd img rect e s =
     (if activeTab s = Retouch then
        let scaleX = jsdiv_nat rnd (naturalWidth img) (width img);
            scaleY = jsdiv_nat rnd (naturalHeight img) (height img);
            clientX = jssub rnd (fst e) (fst rect);
            clientY = jssub rnd (snd e) (snd rect);
            naturalX = jsround (jsmul rnd clientX scaleX);
            naturalY = jsround (jsmul rnd clientY scaleY)
        in s\<lparr>editHotspot := Some \<lparr>point_x = naturalX, point_y = naturalY\<rparr>,
              displayHotspot := Some \<lparr>point_x = clientX, point_y = clientY\<rparr>,
              error := None\<rparr>
      else if activeTab s \<noteq> Crop then s\<lparr>isPreviewOpen := True\<rparr>
      else s)"

text \<open>
  The handler as the engine runs it, with every quotient, difference and product rounded
  to binary64; and the handler in exact arithmetic.
\<close>

definition handleImageClick_binary64 ::
  "image \<Rightarrow> real \<times> real \<Rightarrow> real \<times> real \<Rightarrow> session \<Rightarrow> session" where
  "handleImageClick_binary64 = handleImageClick_with binary64"

definition handleImageClick :: "image \<Rightarrow> real \<times> real \<Rightarrow> real \<times> real \<Rightarrow> session \<Rightarrow> session" where
  "handleImageClick = handleImageClick_with exact"

section \<open>The submit buttons\<close>

text \<open>
  A button of the control panel exists when the panel is rendered (a current image and
  the panel's tab) and passes a click to its \<^verbatim>\<open>onClick\<close> handler unless its
  \<^verbatim>\<open>disabled\<close> attribute is set. The retouch button is in \<^verbatim>\<open>App.tsx\<close>; the
  freestyle and background panels keep their own \<^verbatim>\<open>prompt\<close>, the argument \<open>p\<close>.
\<close>

definition click_generate :: "session \<Rightarrow> session \<times> request option" where
  "click_generate s =
     (if currentImage s \<noteq> None \<and> activeTab s = Retouch
         \<and> \<not> (isLoading s \<or> trim (prompt s) = [] \<or> editHotspot s = None)
      then handleGenerate_begin s else (s, None))"

definition FreestylePanel_handleApply :: "string \<Rightarrow> session \<Rightarrow> session \<times> request option" where
  "FreestylePanel_handleApply p s =
     (if trim p \<noteq> [] then handleApplyFreestyle_begin p s else (s, None))"

definition click_freestyle :: "string \<Rightarrow> session \<Rightarrow> session \<times> request option" where
  "click_freestyle p s =
     (if currentImage s \<noteq> None \<and> activeTab s = Freestyle
         \<and> \<not> (isLoading s \<or> trim p = [])
      then FreestylePanel_handleApply p s else (s, None))"

definition BackgroundPanel_handleApply :: "string \<Rightarrow> session \<Rightarrow> session \<times> request option" where
  "BackgroundPanel_handleApply p s =
     (if trim p \<noteq> [] then handleApplyBackground_begin p s else (s, None))"

definition click_background :: "string \<Rightarrow> session \<Rightarrow> session \<times> request option" where
  "click_background p s =
     (if currentImage s \<noteq> None \<and> activeTab s = Background
         \<and> \<not> (isLoading s \<or> trim p = [])
      then BackgroundPanel_handleApply p s else (s, None))"

section \<open>Sample inputs\<close>

text \<open>Concrete values on which the examples below are evaluated.\<close>

definition img_A :: jsfile where
  "img_A = \<lparr>bits = [65], fname = ''a.png'', mime = ''image/png''\<rparr>"

definition img_B :: jsfile where
  "img_B = \<lparr>bits = [66], fname = ''b.png'', mime = ''image/png''\<rparr>"

definition img_C :: jsfile where
  "img_C = \<lparr>bits = [67], fname = ''c.png'', mime = ''image/png''\<rparr>"

definition img_D :: jsfile where
  "img_D = \<lparr>bits = [68], fname = ''d.png'', mime = ''image/png''\<rparr>"

text \<open>The history \<open>[A, B, C]\<close> with the cursor on \<open>B\<close>.\<close>

definition abc_at_1 :: session where
  "abc_at_1 = initial\<lparr>history := [img_A, img_B, img_C], historyIndex := 1\<rparr>"

text \<open>An image of natural size 100 x 200 shown at 50 x 100, and a crop of all of it.\<close>

definition half_size :: image where
  "half_size = \<lparr>naturalWidth = 100, naturalHeight = 200, width = 50, height = 100\<rparr>"

definition whole_crop :: pixelCrop where
  "whole_crop = \<lparr>crop_x = 0, crop_y = 0, crop_width = 50, crop_height = 100\<rparr>"

text \<open>
  A 61 x 15 image shown at 14 x 22, and a crop of 51 x 33 rendered pixels.
\<close>

definition narrow :: image where
  "narrow = \<lparr>naturalWidth = 61, naturalHeight = 15, width = 14, height = 22\<rparr>"

definition part_crop :: pixelCrop where
  "part_crop = \<lparr>crop_x = 0, crop_y = 0, crop_width = 51, crop_height = 33\<rparr>"

text \<open>A session with an operation in flight, the retouch form filled in.\<close>

definition busy :: session where
  "busy = initial\<lparr>history := [img_A], historyIndex := 0, isLoading := True,
                  prompt := ''fix'', editHotspot := Some \<lparr>point_x = Fin 1, point_y = Fin 1\<rparr>\<rparr>"

text \<open>A session on the crop tab with a completed selection.\<close>

definition cropping :: session where
  "cropping = initial\<lparr>history := [img_A], historyIndex := 0, activeTab := Crop,
                      crop := Some whole_crop, completedCrop := Some whole_crop\<rparr>"

text \<open>
  Stand-ins for the two browser functions that are parameters: a decoder that returns
  its argument, and a canvas that always encodes to the same data URL.
\<close>

definition sample_atob :: "string \<Rightarrow> thrown + string" where
  "sample_atob b = Inr b"

definition sample_url :: string where
  "sample_url = ''data:image/png;base64,QQ==''"

definition sample_toDataURL :: "canvas \<Rightarrow> string" where
  "sample_toDataURL cv = sample_url"

section \<open>Auxiliary facts\<close>

lemma slice_prefix:
  "0 \<le> i \<Longrightarrow> i < int (length xs) \<Longrightarrow> slice xs 0 (i + 1) = take (nat i + 1) xs"
  by (simp add: slice_def Let_def min_def nat_add_distrib)

lemma redo_noop_at_tail: "\<not> canRedo s \<Longrightarrow> handleRedo s = s"
  by (simp add: handleRedo_def)

lemma redo_step: "canRedo s \<Longrightarrow> handleRedo s = s\<lparr>historyIndex := historyIndex s - 1\<rparr>"
  by (simp add: handleRedo_def)

text \<open>Upload, append and undo keep the cursor inside the history.\<close>

lemma upload_cursor_in_range:
  "0 \<le> historyIndex (handleImageUpload f s)
   \<and> historyIndex (handleImageUpload f s) < int (length (history (handleImageUpload f s)))"
  by (simp add: handleImageUpload_def)

lemma append_cursor_in_range:
  "0 \<le> historyIndex (addImageToHistory c f s)
   \<and> historyIndex (addImageToHistory c f s) < int (length (history (addImageToHistory c f s)))"
  by (simp add: addImageToHistory_def Let_def)

lemma undo_cursor_in_range:
  assumes "0 \<le> historyIndex s" and "historyIndex s < int (length (history s))"
  shows "0 \<le> historyIndex (handleUndo s)
       \<and> historyIndex (handleUndo s) < int (length (history (handleUndo s)))"
  using assms by (auto simp add: handleUndo_def canUndo_def)

text \<open>Whether a data URL converts does not depend on the file name.\<close>

lemma dataURLtoFile_name:
  "dataURLtoFile atob url nm = Inr f \<Longrightarrow> dataURLtoFile atob url nm' = Inr (f\<lparr>fname := nm'\<rparr>)"
  by (auto simp add: dataURLtoFile_def Let_def split: if_splits option.splits sum.splits)

lemma sample_url_converts:
  "dataURLtoFile sample_atob sample_url nm
     = Inr \<lparr>bits = [81, 81, 61, 61], fname = nm, mime = ''image/png''\<rparr>"
  by (simp add: dataURLtoFile_def sample_atob_def sample_url_def Let_def file_type_def
        printable_def ascii_lower_def)

text \<open>What each handler does when the service resolves with a usable data URL.\<close>

lemma generate_succeeds:
  assumes "dataURLtoFile atob url nm = Inr f"
  shows "handleGenerate_resume atob now c (Inr url) s =
          (addImageToHistory c (f\<lparr>fname := ''edited-'' @ decimal now @ ''.png''\<rparr>) s)
            \<lparr>editHotspot := None, displayHotspot := None, prompt := [], isLoading := False\<rparr>"
  using dataURLtoFile_name [OF assms, of "''edited-'' @ decimal now @ ''.png''"]
  by (simp add: handleGenerate_resume_def Let_def)

lemma filter_succeeds:
  assumes "dataURLtoFile atob url nm = Inr f"
  shows "handleApplyFilter_resume atob now c (Inr url) s =
          (addImageToHistory c (f\<lparr>fname := ''filtered-'' @ decimal now @ ''.png''\<rparr>) s)
            \<lparr>isLoading := False\<rparr>"
  using dataURLtoFile_name [OF assms, of "''filtered-'' @ decimal now @ ''.png''"]
  by (simp add: handleApplyFilter_resume_def Let_def)

lemma adjustment_succeeds:
  assumes "dataURLtoFile atob url nm = Inr f"
  shows "handleApplyAdjustment_resume atob now c (Inr url) s =
          (addImageToHistory c (f\<lparr>fname := ''adjusted-'' @ decimal now @ ''.png''\<rparr>) s)
            \<lparr>isLoading := False\<rparr>"
  using dataURLtoFile_name [OF assms, of "''adjusted-'' @ decimal now @ ''.png''"]
  by (simp add: handleApplyAdjustment_resume_def Let_def)

lemma background_succeeds:
  assumes "dataURLtoFile atob url nm = Inr f"
  shows "handleApplyBackground_resume atob now c (Inr url) s =
          (addImageToHistory c (f\<lparr>fname := ''background-'' @ decimal now @ ''.png''\<rparr>) s)
            \<lparr>isLoading := False\<rparr>"
  using dataURLtoFile_name [OF assms, of "''background-'' @ decimal now @ ''.png''"]
  by (simp add: handleApplyBackground_resume_def Let_def)

lemma freestyle_succeeds:
  assumes "dataURLtoFile atob url nm = Inr f"
  shows "handleApplyFreestyle_resume atob now c (Inr url) s =
          (addImageToHistory c (f\<lparr>fname := ''freestyle-'' @ decimal now @ ''.png''\<rparr>) s)
            \<lparr>isLoading := False\<rparr>"
  using dataURLtoFile_name [OF assms, of "''freestyle-'' @ decimal now @ ''.png''"]
  by (simp add: handleApplyFreestyle_resume_def Let_def)

lemma crop_succeeds:
  assumes "completedCrop s = Some crp"
    and "getCroppedImg toDataURL has_ctx dpr img crp = Inr url"
    and "dataURLtoFile atob url nm = Inr f"
  shows "handleCrop atob now toDataURL has_ctx dpr (Some img) s =
           addImageToHistory s (f\<lparr>fname := ''cropped-'' @ decimal now @ ''.png''\<rparr>) s"
  using assms(1,2) dataURLtoFile_name [OF assms(3), of "''cropped-'' @ decimal now @ ''.png''"]
  by (simp add: handleCrop_def)

lemma append_history:
  "history (addImageToHistory c f s) = slice (history c) 0 (historyIndex c + 1) @ [f]"
  by (simp add: addImageToHistory_def Let_def)

lemma append_clears:
  "crop (addImageToHistory c f s) = None \<and> completedCrop (addImageToHistory c f s) = None"
  by (simp add: addImageToHistory_def Let_def)

text \<open>What each asynchronous handler does, from start to end, when the service rejects.\<close>

lemma generate_fails:
  "history (handleGenerate_resume atob now c (Inl err) (fst (handleGenerate_begin s))) = history s
   \<and> historyIndex (handleGenerate_resume atob now c (Inl err) (fst (handleGenerate_begin s)))
       = historyIndex s
   \<and> \<not> isLoading (handleGenerate_resume atob now c (Inl err) (fst (handleGenerate_begin s)))
   \<and> error (handleGenerate_resume atob now c (Inl err) (fst (handleGenerate_begin s)))
       = Some (GenerateFailed (errorMessage err))"
  by (simp add: handleGenerate_resume_def handleGenerate_begin_def Let_def split: option.split)

lemma filter_fails:
  "history (handleApplyFilter_resume atob now c (Inl err) (fst (handleApplyFilter_begin p s)))
       = history s
   \<and> historyIndex (handleApplyFilter_resume atob now c (Inl err) (fst (handleApplyFilter_begin p s)))
       = historyIndex s
   \<and> \<not> isLoading (handleApplyFilter_resume atob now c (Inl err) (fst (handleApplyFilter_begin p s)))
   \<and> error (handleApplyFilter_resume atob now c (Inl err) (fst (handleApplyFilter_begin p s)))
       = Some (FilterFailed (errorMessage err))"
  by (simp add: handleApplyFilter_resume_def handleApplyFilter_begin_def Let_def split: option.split)

lemma adjustment_fails:
  "history (handleApplyAdjustment_resume atob now c (Inl err) (fst (handleApplyAdjustment_begin p s)))
       = history s
   \<and> historyIndex (handleApplyAdjustment_resume atob now c (Inl err) (fst (handleApplyAdjustment_begin p s)))
       = historyIndex s
   \<and> \<not> isLoading (handleApplyAdjustment_resume atob now c (Inl err) (fst (handleApplyAdjustment_begin p s)))
   \<and> error (handleApplyAdjustment_resume atob now c (Inl err) (fst (handleApplyAdjustment_begin p s)))
       = Some (AdjustmentFailed (errorMessage err))"
  by (simp add: handleApplyAdjustment_resume_def handleApplyAdjustment_begin_def Let_def
           split: option.split)

lemma background_fails:
  "history (handleApplyBackground_resume atob now c (Inl err) (fst (handleApplyBackground_begin p s)))
       = history s
   \<and> historyIndex (handleApplyBackground_resume atob now c (Inl err) (fst (handleApplyBackground_begin p s)))
       = historyIndex s
   \<and> \<not> isLoading (handleApplyBackground_resume atob now c (Inl err) (fst (handleApplyBackground_begin p s)))
   \<and> error (handleApplyBackground_resume atob now c (Inl err) (fst (handleApplyBackground_begin p s)))
       = Some (BackgroundFailed (errorMessage err))"
  by (simp add: handleApplyBackground_resume_def handleApplyBackground_begin_def Let_def
           split: option.split)

lemma freestyle_fails:
  "history (handleApplyFreestyle_resume atob now c (Inl err) (fst (handleApplyFreestyle_begin p s)))
       = history s
   \<and> historyIndex (handleApplyFreestyle_resume atob now c (Inl err) (fst (handleApplyFreestyle_begin p s)))
       = historyIndex s
   \<and> \<not> isLoading (handleApplyFreestyle_resume atob now c (Inl err) (fst (handleApplyFreestyle_begin p s)))
   \<and> error (handleApplyFreestyle_resume atob now c (Inl err) (fst (handleApplyFreestyle_begin p s)))
       = Some (FreestyleFailed (errorMessage err))"
  by (simp add: handleApplyFreestyle_resume_def handleApplyFreestyle_begin_def Let_def
           split: option.split)

text \<open>Rounding and the non-finite values.\<close>

lemma nonfinite_stays_nonfinite: "\<not> isFin v \<Longrightarrow> \<not> isFin (jsround (jsmul rnd u v))"
  by (cases u; cases v) auto


text \<open>
  Rounding to binary64 keeps a natural number below \<open>2 ^ 53\<close> as it is: such a number
  has at most 53 binary digits.
\<close>

lemma bit_length_le: "n < 2 ^ k \<Longrightarrow> bit_length n \<le> k"
proof (induction k arbitrary: n)
  case 0
  then show ?case by (simp add: bit_length.simps)
next
  case (Suc k)
  show ?case
  proof (cases "n = 0")
    case True
    then show ?thesis by (simp add: bit_length.simps)
  next
    case False
    have "n div 2 < 2 ^ k" using Suc.prems by simp
    then have "bit_length (n div 2) \<le> k" by (rule Suc.IH)
    then show ?thesis using False by (subst bit_length.simps) simp
  qed
qed

lemma bit_length_pos: "0 < n \<Longrightarrow> 0 < bit_length n"
  by (subst bit_length.simps) simp

lemma round_half_even_int: "round_half_even (of_int m) = m"
  by (simp add: round_half_even_def Let_def)

lemma binary64_nat:
  assumes "n < 2 ^ 53"
  shows "binary64 (real n) = Fin (real n)"
proof (cases "n = 0")
  case True
  then show ?thesis by (simp add: binary64_def)
next
  case False
  then have pos: "0 < n" by simp
  define b where "b = bit_length n"
  have b1: "1 \<le> b" using bit_length_pos [OF pos] by (simp add: b_def)
  have b53: "b \<le> 53" using bit_length_le [OF assms] by (simp add: b_def)
  have il: "ilog2 (real n) = int b - 1"
    using pos by (simp add: ilog2_def b_def)
  define j where "j = 53 - b"
  have q: "max (ilog2 (real n)) (- 1022) - 52 = - int j"
    using b1 b53 by (simp add: il j_def)
  have p: "pow2 (- int j) = 1 / 2 ^ j"
    by (simp add: pow2_def)
  have t: "real n / pow2 (- int j) = of_int (int n * 2 ^ j)"
    by (simp add: p)
  have r: "real_of_int (round_half_even (real n / pow2 (- int j))) * pow2 (- int j) = real n"
    unfolding t round_half_even_int by (simp add: p)
  have small: "real n < 2 ^ 1024"
  proof -
    have "real n < 2 ^ 53" using assms by (metis of_nat_less_iff of_nat_numeral of_nat_power)
    also have "\<dots> \<le> (2::real) ^ 1024" by (rule power_increasing) simp_all
    finally show ?thesis .
  qed
  show ?thesis
    using pos small by (simp add: binary64_def Let_def q r)
qed

lemma binary64_numeral:
  "numeral k < (2::nat) ^ 53 \<Longrightarrow> binary64 (numeral k) = Fin (numeral k)"
  using binary64_nat [of "numeral k"] by simp

lemma binary64_one: "binary64 1 = Fin 1"
  using binary64_nat [of 1] by simp

lemma binary64_zero: "binary64 0 = Fin 0"
  by (simp add: binary64_def)

text \<open>The roundings that the examples below need.\<close>

lemma binary64_61_14: "binary64 (61 / 14) = Fin (4905706736957147 / 1125899906842624)"
proof -
  have i: "ilog2 (61 / 14) = 2" by (simp add: ilog2_def bit_length.simps)
  show ?thesis
    apply (simp add: binary64_def Let_def i)
    apply (simp add: pow2_def)
    apply (simp add: round_half_even_def Let_def)
    done
qed

lemma binary64_15_22: "binary64 (15 / 22) = Fin (6141272219141585 / 9007199254740992)"
proof -
  have i: "ilog2 (15 / 22) = - 1" by (simp add: ilog2_def bit_length.simps)
  show ?thesis
    apply (simp add: binary64_def Let_def i)
    apply (simp add: pow2_def)
    apply (simp add: round_half_even_def Let_def)
    done
qed

lemma binary64_7_times:
  "binary64 (34339947158700029 / 1125899906842624) = Fin (8584986789675007 / 281474976710656)"
proof -
  have i: "ilog2 (34339947158700029 / 1125899906842624) = 4"
    by (simp add: ilog2_def bit_length.simps)
  show ?thesis
    apply (simp add: binary64_def Let_def i)
    apply (simp add: pow2_def)
    apply (simp add: round_half_even_def Let_def)
    done
qed

lemma binary64_11_times:
  "binary64 (67553994410557435 / 9007199254740992) = Fin (8444249301319679 / 1125899906842624)"
proof -
  have i: "ilog2 (67553994410557435 / 9007199254740992) = 2"
    by (simp add: ilog2_def bit_length.simps)
  show ?thesis
    apply (simp add: binary64_def Let_def i)
    apply (simp add: pow2_def)
    apply (simp add: round_half_even_def Let_def)
    done
qed

lemma binary64_255_4: "binary64 (255 / 4) = Fin (255 / 4)"
proof -
  have i: "ilog2 (255 / 4) = 5" by (simp add: ilog2_def bit_length.simps)
  show ?thesis
    apply (simp add: binary64_def Let_def i)
    apply (simp add: pow2_def)
    apply (simp add: round_half_even_def Let_def)
    done
qed

lemma binary64_165_4: "binary64 (165 / 4) = Fin (165 / 4)"
proof -
  have i: "ilog2 (165 / 4) = 5" by (simp add: ilog2_def bit_length.simps)
  show ?thesis
    apply (simp add: binary64_def Let_def i)
    apply (simp add: pow2_def)
    apply (simp add: round_half_even_def Let_def)
    done
qed

lemma binary64_1_10: "binary64 (1 / 10) = Fin (3602879701896397 / 36028797018963968)"
proof -
  have i: "ilog2 (1 / 10) = - 4" by (simp add: ilog2_def bit_length.simps)
  show ?thesis
    apply (simp add: binary64_def Let_def i)
    apply (simp add: pow2_def)
    apply (simp add: round_half_even_def Let_def)
    done
qed

lemma binary64_4_10:
  "binary64 (3602879701896397 / 9007199254740992) = Fin (3602879701896397 / 9007199254740992)"
proof -
  have i: "ilog2 (3602879701896397 / 9007199254740992) = - 2"
    by (simp add: ilog2_def bit_length.simps)
  show ?thesis
    apply (simp add: binary64_def Let_def i)
    apply (simp add: pow2_def)
    apply (simp add: round_half_even_def Let_def)
    done
qed

text \<open>Assigning a number from 0 up to \<open>2 ^ 31 - 1\<close> to a canvas dimension keeps its integer part.\<close>

lemma set_dimension_in_range:
  assumes "0 \<le> x" and "x < 2147483648"
  shows "set_dimension dflt (Fin x) = nat \<lfloor>x\<rfloor>"
proof -
  have lo: "0 \<le> \<lfloor>x\<rfloor>" using assms(1) by simp
  have hi: "\<lfloor>x\<rfloor> < 2147483648" using assms(2) by linarith
  have m: "\<lfloor>x\<rfloor> mod 4294967296 = \<lfloor>x\<rfloor>" using lo hi by simp
  have u: "to_unsigned_long (Fin x) = nat \<lfloor>x\<rfloor>"
    using assms(1) by (simp add: to_unsigned_long_def m)
  have "nat \<lfloor>x\<rfloor> \<le> 2147483647" using lo hi by linarith
  then show ?thesis by (simp add: set_dimension_def u)
qed

text \<open>
  With a rendered width or height of zero the hotspot is not finite on that axis and the
  error is cleared, whatever the rounding.
\<close>

lemma zero_size_any_rounding:
  assumes "activeTab s = Retouch" and "width img = 0 \<or> height img = 0"
  shows "error (handleImageClick_with rnd img rect e s) = None
       \<and> (\<exists>hs. editHotspot (handleImageClick_with rnd img rect e s) = Some hs
               \<and> (width img = 0 \<longrightarrow> \<not> isFin (point_x hs))
               \<and> (height img = 0 \<longrightarrow> \<not> isFin (point_y hs)))"
  using assms
  by (auto simp add: handleImageClick_with_def Let_def jsdiv_nat_def
        intro!: nonfinite_stays_nonfinite)


text \<open>
  A 10 x 10 image shown at 100 x 100 and a click at (4, 4): the engine's handler stores
  the hotspot (0, 0), as the handler in exact arithmetic does.
\<close>

lemma enlarged_image_click_binary64:
  "editHotspot (handleImageClick_binary64
       \<lparr>naturalWidth = 10, naturalHeight = 10, width = 100, height = 100\<rparr>
       (0, 0) (4, 4) initial) = Some \<lparr>point_x = Fin 0, point_y = Fin 0\<rparr>"
  by (simp add: handleImageClick_binary64_def handleImageClick_with_def initial_def
        jsdiv_nat_def jssub_def Let_def binary64_numeral binary64_1_10 binary64_4_10)

section \<open>Claims about the version history\<close>

text \<open>
  C1. Redo is meant to move the cursor one step forward and leave the sequence of
  versions as it is. \<^verbatim>\<open>handleRedo\<close> tests \<^verbatim>\<open>canRedo\<close> and then writes
  \<^verbatim>\<open>historyIndex - 1\<close>, the same assignment as \<^verbatim>\<open>handleUndo\<close>: on the history
  \<open>[A, B, C]\<close> with the cursor at 1 it leaves the sequence unchanged and moves the cursor
  to 0, not to 2.
\<close>

theorem redo_moves_cursor_back:
  "canRedo abc_at_1
   \<and> historyIndex (handleRedo abc_at_1) = 0
   \<and> history (handleRedo abc_at_1) = [img_A, img_B, img_C]"
  by (simp add: handleRedo_def canRedo_def abc_at_1_def initial_def)

text \<open>
  C2. Appending a version \<open>v\<close> when the cursor \<open>i\<close> is inside the history gives the
  first \<open>i + 1\<close> versions followed by \<open>v\<close>, and puts the cursor on \<open>v\<close>, at \<open>i + 1\<close>;
  with the cursor at the tail the history grows by exactly one.
\<close>

theorem append_branch_cut:
  assumes "0 \<le> historyIndex c" and "historyIndex c < int (length (history c))"
  shows "history (addImageToHistory c v s) = take (nat (historyIndex c) + 1) (history c) @ [v]
       \<and> historyIndex (addImageToHistory c v s) = historyIndex c + 1
       \<and> (historyIndex c = int (length (history c)) - 1 \<longrightarrow>
            length (history (addImageToHistory c v s)) = length (history c) + 1)"
proof -
  have cut: "slice (history c) 0 (historyIndex c + 1) = take (nat (historyIndex c) + 1) (history c)"
    using assms by (rule slice_prefix)
  have h: "history (addImageToHistory c v s) = take (nat (historyIndex c) + 1) (history c) @ [v]"
    by (simp add: addImageToHistory_def Let_def cut)
  have i: "historyIndex (addImageToHistory c v s) = historyIndex c + 1"
    using assms by (simp add: addImageToHistory_def Let_def cut)
  have t: "historyIndex c = int (length (history c)) - 1 \<longrightarrow>
            length (history (addImageToHistory c v s)) = length (history c) + 1"
    using assms by (simp add: h)
  from h i t show ?thesis by blast
qed

text \<open>
  The scenario of the specification: \<open>[A, B, C]\<close> with the cursor at 1, append \<open>D\<close>,
  gives \<open>[A, B, D]\<close> with the cursor at 2. The second example has the cursor at the tail.
\<close>

theorem append_branch_cut_witness:
  "history (addImageToHistory abc_at_1 img_D abc_at_1) = [img_A, img_B, img_D]
   \<and> historyIndex (addImageToHistory abc_at_1 img_D abc_at_1) = 2
   \<and> length (history (addImageToHistory (abc_at_1\<lparr>historyIndex := 2\<rparr>) img_D abc_at_1)) = 4"
  using append_branch_cut [of abc_at_1 img_D abc_at_1]
    append_branch_cut [of "abc_at_1\<lparr>historyIndex := 2\<rparr>" img_D abc_at_1]
  by (simp add: abc_at_1_def initial_def)

text \<open>
  C3. The cursor is meant to stay inside a non-empty history under every operation.
  Upload, append and undo keep it there (the lemmas \<open>upload_cursor_in_range\<close>,
  \<open>append_cursor_in_range\<close> and \<open>undo_cursor_in_range\<close>), redo does not: from the empty
  session, upload \<open>A\<close>, append \<open>B\<close>, undo and redo leave two versions and the cursor
  at \<open>-1\<close>, where no version is current.
\<close>

theorem redo_leaves_the_history:
  "historyIndex (handleRedo (handleUndo
      (addImageToHistory (handleImageUpload img_A initial) img_B
         (handleImageUpload img_A initial)))) = - 1
   \<and> length (history (handleRedo (handleUndo
      (addImageToHistory (handleImageUpload img_A initial) img_B
         (handleImageUpload img_A initial))))) = 2
   \<and> currentImage (handleRedo (handleUndo
      (addImageToHistory (handleImageUpload img_A initial) img_B
         (handleImageUpload img_A initial)))) = None"
  by (simp add: handleRedo_def handleUndo_def canRedo_def canUndo_def addImageToHistory_def
        handleImageUpload_def initial_def slice_def Let_def currentImage_def index_or_null_def)

section \<open>Claims about the coordinate mapping\<close>

text \<open>
  C4, amended. A click in retouch mode on an image element of non-zero rendered size sets
  the hotspot, on each axis, to \<^verbatim>\<open>Math.round\<close> of the product of the pointer position
  relative to the element and the scale factor, natural size over rendered size; the
  difference, the quotient and the product are each rounded to binary64 before they are
  used.
\<close>

theorem hotspot_binary64_coordinates:
  assumes "activeTab s = Retouch" and "0 < width img" and "0 < height img"
  shows "editHotspot (handleImageClick_binary64 img rect e s) =
           Some \<lparr>point_x = jsround (jsmul binary64 (binary64 (fst e - fst rect))
                                     (binary64 (real (naturalWidth img) / real (width img)))),
                 point_y = jsround (jsmul binary64 (binary64 (snd e - snd rect))
                                     (binary64 (real (naturalHeight img) / real (height img))))\<rparr>"
  using assms
  by (simp add: handleImageClick_binary64_def handleImageClick_with_def jsdiv_nat_def
        jssub_def Let_def)

text \<open>
  The scenario of the specification: a 100 x 200 image shown at 50 x 100, a click at
  (25, 50) of the element (here the element is at (10, 20) and the click at (35, 70) of
  the viewport) gives the hotspot (50, 100); nothing is rounded there.
\<close>

theorem hotspot_binary64_coordinates_witness:
  "activeTab initial = Retouch \<and> 0 < width half_size \<and> 0 < height half_size
   \<and> editHotspot (handleImageClick_binary64 half_size (10, 20) (35, 70) initial)
       = Some \<lparr>point_x = Fin 50, point_y = Fin 100\<rparr>"
  using hotspot_binary64_coordinates [of initial half_size "(10, 20)" "(35, 70)"]
  by (simp add: initial_def half_size_def binary64_numeral)

text \<open>
  C4 as stated, with the formula in exact arithmetic, fails: for a 61 x 15 image shown
  at 14 x 22 and a click at (7, 11), the quotients 61 / 14 and 15 / 22 are rounded down
  before the multiplication, the products are just below 30.5 and 7.5, and the hotspot
  is (30, 7), where \<open>round (7 * 61 / 14)\<close> is 31 and \<open>round (11 * 15 / 22)\<close> is 8.
\<close>

theorem hotspot_exact_formula_counterexample:
  "editHotspot (handleImageClick_binary64 narrow (0, 0) (7, 11) initial)
     = Some \<lparr>point_x = Fin 30, point_y = Fin 7\<rparr>
   \<and> round (7 * real (naturalWidth narrow) / real (width narrow)) = 31
   \<and> round (11 * real (naturalHeight narrow) / real (height narrow)) = 8"
  by (simp add: handleImageClick_binary64_def handleImageClick_with_def narrow_def initial_def
        jsdiv_nat_def jssub_def Let_def round_def binary64_numeral binary64_61_14
        binary64_15_22 binary64_7_times binary64_11_times)

text \<open>
  C7, as the code has it. \<^verbatim>\<open>handleImageClick\<close> has no check of the rendered size
  and nothing in it throws: when the rendered width or height is zero, the division gives
  \<^verbatim>\<open>Infinity\<close> or \<^verbatim>\<open>NaN\<close>, the hotspot is set with a coordinate that is not a
  finite number on that axis, and the last error is cleared instead of set. (The lemma
  \<open>zero_size_any_rounding\<close> has it for every rounding.)
\<close>

theorem zero_size_gives_nonfinite_hotspot:
  assumes "activeTab s = Retouch" and "width img = 0 \<or> height img = 0"
  shows "error (handleImageClick img rect e s) = None
       \<and> (\<exists>hs. editHotspot (handleImageClick img rect e s) = Some hs
               \<and> (width img = 0 \<longrightarrow> \<not> isFin (point_x hs))
               \<and> (height img = 0 \<longrightarrow> \<not> isFin (point_y hs)))"
  using zero_size_any_rounding [OF assms, of exact rect e]
  by (simp add: handleImageClick_def)

theorem zero_size_gives_nonfinite_hotspot_witness:
  "activeTab initial = Retouch
   \<and> height (half_size\<lparr>height := 0\<rparr>) = 0
   \<and> error (handleImageClick (half_size\<lparr>height := 0\<rparr>) (0, 0) (25, 50) initial) = None
   \<and> (\<exists>hs. editHotspot (handleImageClick (half_size\<lparr>height := 0\<rparr>) (0, 0) (25, 50) initial) = Some hs
           \<and> \<not> isFin (point_y hs))"
  using zero_size_gives_nonfinite_hotspot [of initial "half_size\<lparr>height := 0\<rparr>" "(0, 0)" "(25, 50)"]
  by (simp add: initial_def half_size_def)

text \<open>
  C7 as stated fails: with a rendered width of zero, a click at (25, 50) while an error
  is shown ends with no error and the hotspot \<^verbatim>\<open>(Infinity, 100)\<close>.
\<close>

theorem zero_width_click_counterexample:
  "error (handleImageClick (half_size\<lparr>width := 0\<rparr>) (0, 0) (25, 50)
            (initial\<lparr>error := Some NoHotspot\<rparr>)) = None
   \<and> editHotspot (handleImageClick (half_size\<lparr>width := 0\<rparr>) (0, 0) (25, 50)
            (initial\<lparr>error := Some NoHotspot\<rparr>))
       = Some \<lparr>point_x = PosInf, point_y = Fin 100\<rparr>"
  by (simp add: handleImageClick_def handleImageClick_with_def exact_def jsdiv_nat_def
        jssub_def Let_def initial_def half_size_def)




section \<open>Claims about cropping\<close>

text \<open>
  C8, amended. When a 2D context is available and the image element has a non-zero
  rendered size, the canvas that \<^verbatim>\<open>getCroppedImg\<close> encodes has as width and height
  the integer parts of the width and height of the crop rectangle in rendered pixels,
  each multiplied by the pixel density (\<^verbatim>\<open>window.devicePixelRatio\<close>, or 1 when that
  is 0), for binary64 products from 0 up to \<open>2 ^ 31 - 1\<close>; the rectangle sampled from
  the image is the crop rectangle scaled to natural pixels on each axis, in binary64
  arithmetic, whatever the density.
\<close>

theorem cropped_canvas_geometry:
  assumes "0 < width img" and "0 < height img"
    and "binary64 (crop_width crp * (if d = 0 then 1 else d)) = Fin pw"
    and "binary64 (crop_height crp * (if d = 0 then 1 else d)) = Fin ph"
    and "0 \<le> pw" and "pw < 2147483648" and "0 \<le> ph" and "ph < 2147483648"
  shows "getCroppedImg_canvas True (Fin d) img crp =
           Inr \<lparr>canvas_width = nat \<lfloor>pw\<rfloor>,
                canvas_height = nat \<lfloor>ph\<rfloor>,
                transform = (Fin (if d = 0 then 1 else d), Fin 0, Fin 0,
                             Fin (if d = 0 then 1 else d), Fin 0, Fin 0),
                drawn = Some
                  \<lparr>sx = jsmul binary64 (Fin (crop_x crp))
                          (binary64 (real (naturalWidth img) / real (width img))),
                   sy = jsmul binary64 (Fin (crop_y crp))
                          (binary64 (real (naturalHeight img) / real (height img))),
                   sWidth = jsmul binary64 (Fin (crop_width crp))
                          (binary64 (real (naturalWidth img) / real (width img))),
                   sHeight = jsmul binary64 (Fin (crop_height crp))
                          (binary64 (real (naturalHeight img) / real (height img))),
                   dx = Fin 0, dy = Fin 0,
                   dWidth = Fin (crop_width crp), dHeight = Fin (crop_height crp)\<rparr>\<rparr>"
proof -
  have w: "set_dimension 300 (Fin pw) = nat \<lfloor>pw\<rfloor>"
    using assms(5,6) by (rule set_dimension_in_range)
  have h: "set_dimension 150 (Fin ph) = nat \<lfloor>ph\<rfloor>"
    using assms(7,8) by (rule set_dimension_in_range)
  show ?thesis
  proof (cases "d = 0")
    case True
    then show ?thesis
      using assms(1-4) by (simp add: getCroppedImg_canvas_def jsdiv_nat_def Let_def w h)
  next
    case False
    then show ?thesis
      using assms(1-4) by (simp add: getCroppedImg_canvas_def jsdiv_nat_def Let_def w h)
  qed
qed

text \<open>
  A crop of 51 x 33 rendered pixels of a 100 x 200 image shown at 50 x 100, at density
  1.25: the products are 63.75 and 41.25, the canvas is 63 x 41, and the rectangle
  sampled is (0, 0, 102, 66).
\<close>

theorem cropped_canvas_geometry_witness:
  "0 < width half_size \<and> 0 < height half_size
   \<and> binary64 (crop_width part_crop * (5 / 4)) = Fin (255 / 4)
   \<and> binary64 (crop_height part_crop * (5 / 4)) = Fin (165 / 4)
   \<and> getCroppedImg_canvas True (Fin (5 / 4)) half_size part_crop =
       Inr \<lparr>canvas_width = 63, canvas_height = 41,
            transform = (Fin (5 / 4), Fin 0, Fin 0, Fin (5 / 4), Fin 0, Fin 0),
            drawn = Some \<lparr>sx = Fin 0, sy = Fin 0, sWidth = Fin 102, sHeight = Fin 66,
                          dx = Fin 0, dy = Fin 0, dWidth = Fin 51, dHeight = Fin 33\<rparr>\<rparr>"
proof -
  have pw: "binary64 (crop_width part_crop * (if (5 / 4 :: real) = 0 then 1 else 5 / 4))
              = Fin (255 / 4)"
    by (simp add: part_crop_def binary64_255_4)
  have ph: "binary64 (crop_height part_crop * (if (5 / 4 :: real) = 0 then 1 else 5 / 4))
              = Fin (165 / 4)"
    by (simp add: part_crop_def binary64_165_4)
  have sz: "0 < width half_size" "0 < height half_size"
    by (simp_all add: half_size_def)
  have fl: "nat \<lfloor>255 / 4 :: real\<rfloor> = 63" "nat \<lfloor>165 / 4 :: real\<rfloor> = 41"
    by simp_all
  note t = cropped_canvas_geometry [OF sz pw ph, of]
  have "getCroppedImg_canvas True (Fin (5 / 4)) half_size part_crop =
       Inr \<lparr>canvas_width = 63, canvas_height = 41,
            transform = (Fin (5 / 4), Fin 0, Fin 0, Fin (5 / 4), Fin 0, Fin 0),
            drawn = Some \<lparr>sx = Fin 0, sy = Fin 0, sWidth = Fin 102, sHeight = Fin 66,
                          dx = Fin 0, dy = Fin 0, dWidth = Fin 51, dHeight = Fin 33\<rparr>\<rparr>"
    using t by (simp add: fl half_size_def part_crop_def binary64_numeral binary64_zero)
  then show ?thesis
    using sz pw ph by simp
qed

text \<open>
  C8 as stated fails: for the whole of that image at density 1 the natural-space
  rectangle is 100 x 200, and the canvas is 50 x 100, the rendered size of the crop.
\<close>

theorem cropped_canvas_counterexample:
  "(case getCroppedImg_canvas True (Fin 1) half_size whole_crop of
      Inl err \<Rightarrow> False
    | Inr cv \<Rightarrow> canvas_width cv = 50 \<and> canvas_height cv = 100
               \<and> map_option sWidth (drawn cv) = Some (Fin 100)
               \<and> map_option sHeight (drawn cv) = Some (Fin 200))"
  by (simp add: getCroppedImg_canvas_def jsdiv_nat_def Let_def half_size_def whole_crop_def
        binary64_numeral binary64_zero set_dimension_def to_unsigned_long_def)

section \<open>Claims about the dispatcher\<close>

text \<open>
  C5, amended. While \<^verbatim>\<open>isLoading\<close> is set, the submit buttons of the retouch,
  freestyle and background panels are disabled: a click calls no handler, so it sends no
  request and leaves the state as it is, without recording a busy error. The operation in
  flight then ends as if there had been no click: when it succeeds, the history is the
  prefix cut from the history it started on, followed by exactly one new version.
\<close>

theorem submit_disabled_while_loading:
  assumes "isLoading s" and "dataURLtoFile atob url nm = Inr f"
  shows "click_generate s = (s, None)
       \<and> click_freestyle p s = (s, None)
       \<and> click_background p s = (s, None)
       \<and> history (handleGenerate_resume atob now c (Inr url) (fst (click_generate s)))
           = slice (history c) 0 (historyIndex c + 1)
               @ [f\<lparr>fname := ''edited-'' @ decimal now @ ''.png''\<rparr>]
       \<and> history (handleApplyFreestyle_resume atob now c (Inr url) (fst (click_freestyle p s)))
           = slice (history c) 0 (historyIndex c + 1)
               @ [f\<lparr>fname := ''freestyle-'' @ decimal now @ ''.png''\<rparr>]
       \<and> history (handleApplyBackground_resume atob now c (Inr url) (fst (click_background p s)))
           = slice (history c) 0 (historyIndex c + 1)
               @ [f\<lparr>fname := ''background-'' @ decimal now @ ''.png''\<rparr>]"
proof -
  have g: "click_generate s = (s, None)"
    using assms(1) by (simp add: click_generate_def)
  have fr: "click_freestyle p s = (s, None)"
    using assms(1) by (simp add: click_freestyle_def)
  have b: "click_background p s = (s, None)"
    using assms(1) by (simp add: click_background_def)
  have hg: "history (handleGenerate_resume atob now c (Inr url) s)
              = slice (history c) 0 (historyIndex c + 1)
                  @ [f\<lparr>fname := ''edited-'' @ decimal now @ ''.png''\<rparr>]"
    by (simp add: generate_succeeds [OF assms(2)] append_history)
  have hf: "history (handleApplyFreestyle_resume atob now c (Inr url) s)
              = slice (history c) 0 (historyIndex c + 1)
                  @ [f\<lparr>fname := ''freestyle-'' @ decimal now @ ''.png''\<rparr>]"
    by (simp add: freestyle_succeeds [OF assms(2)] append_history)
  have hb: "history (handleApplyBackground_resume atob now c (Inr url) s)
              = slice (history c) 0 (historyIndex c + 1)
                  @ [f\<lparr>fname := ''background-'' @ decimal now @ ''.png''\<rparr>]"
    by (simp add: background_succeeds [OF assms(2)] append_history)
  show ?thesis by (simp add: g fr b hg hf hb)
qed

text \<open>
  A retouch is in flight on the history \<open>[A]\<close>; clicks on the three buttons change
  nothing, and the success of the retouch gives a history of two versions.
\<close>

theorem submit_disabled_while_loading_witness:
  "isLoading busy
   \<and> dataURLtoFile sample_atob sample_url ''x''
       = Inr \<lparr>bits = [81, 81, 61, 61], fname = ''x'', mime = ''image/png''\<rparr>
   \<and> click_generate busy = (busy, None)
   \<and> click_freestyle ''sky'' busy = (busy, None)
   \<and> click_background ''sky'' busy = (busy, None)
   \<and> history (handleGenerate_resume sample_atob 7 busy (Inr sample_url) (fst (click_generate busy)))
       = [img_A, \<lparr>bits = [81, 81, 61, 61], fname = ''edited-'' @ decimal 7 @ ''.png'',
                 mime = ''image/png''\<rparr>]"
proof -
  have l: "isLoading busy" by (simp add: busy_def initial_def)
  have u: "dataURLtoFile sample_atob sample_url ''x''
             = Inr \<lparr>bits = [81, 81, 61, 61], fname = ''x'', mime = ''image/png''\<rparr>"
    by (rule sample_url_converts)
  have cut: "slice (history busy) 0 (historyIndex busy + 1) = [img_A]"
    by (simp add: busy_def initial_def slice_def Let_def)
  note t = submit_disabled_while_loading [OF l u, of "''sky''" 7 busy]
  from t have g: "click_generate busy = (busy, None)" by blast
  from t have fr: "click_freestyle ''sky'' busy = (busy, None)" by blast
  from t have b: "click_background ''sky'' busy = (busy, None)" by blast
  from t have "history (handleGenerate_resume sample_atob 7 busy (Inr sample_url)
                          (fst (click_generate busy)))
                 = slice (history busy) 0 (historyIndex busy + 1)
                     @ [\<lparr>bits = [81, 81, 61, 61], fname = ''x'', mime = ''image/png''\<rparr>
                          \<lparr>fname := ''edited-'' @ decimal 7 @ ''.png''\<rparr>]"
    by blast
  then have h: "history (handleGenerate_resume sample_atob 7 busy (Inr sample_url)
                          (fst (click_generate busy)))
                 = [img_A, \<lparr>bits = [81, 81, 61, 61], fname = ''edited-'' @ decimal 7 @ ''.png'',
                           mime = ''image/png''\<rparr>]"
    by (simp add: cut)
  from l u g fr b h show ?thesis by blast
qed

text \<open>
  C5 as stated fails. The handlers do not test \<^verbatim>\<open>isLoading\<close>: started while an
  operation is in flight, \<^verbatim>\<open>handleGenerate\<close> and \<^verbatim>\<open>handleApplyFilter\<close> send a
  second request. And the click that the disabled button swallows records no busy
  condition: the error stays empty.
\<close>

theorem second_submit_counterexample:
  "isLoading busy
   \<and> snd (handleGenerate_begin busy)
       = Some (EditedImage img_A ''fix'' \<lparr>point_x = Fin 1, point_y = Fin 1\<rparr>)
   \<and> snd (handleApplyFilter_begin ''sepia'' busy) = Some (FilteredImage img_A ''sepia'')
   \<and> error (fst (click_generate busy)) = None"
  by (simp add: busy_def initial_def handleGenerate_begin_def handleApplyFilter_begin_def
        click_generate_def currentImage_def index_or_null_def trim_def is_space_def)

text \<open>
  C6. For each of the five operations that call the generative service (retouch,
  filter, adjustment, background, freestyle): when the call is rejected, the history and
  the cursor are those from before the operation started, \<^verbatim>\<open>isLoading\<close> is off
  again, and the error holds the failure text of that operation with the reason of the
  rejection.
\<close>

theorem collaborator_failure_keeps_history:
  "(history (handleGenerate_resume atob now c (Inl err) (fst (handleGenerate_begin s))) = history s
    \<and> historyIndex (handleGenerate_resume atob now c (Inl err) (fst (handleGenerate_begin s)))
        = historyIndex s
    \<and> \<not> isLoading (handleGenerate_resume atob now c (Inl err) (fst (handleGenerate_begin s)))
    \<and> error (handleGenerate_resume atob now c (Inl err) (fst (handleGenerate_begin s)))
        = Some (GenerateFailed (errorMessage err)))
   \<and> (history (handleApplyFilter_resume atob now c (Inl err) (fst (handleApplyFilter_begin p s)))
        = history s
    \<and> historyIndex (handleApplyFilter_resume atob now c (Inl err) (fst (handleApplyFilter_begin p s)))
        = historyIndex s
    \<and> \<not> isLoading (handleApplyFilter_resume atob now c (Inl err) (fst (handleApplyFilter_begin p s)))
    \<and> error (handleApplyFilter_resume atob now c (Inl err) (fst (handleApplyFilter_begin p s)))
        = Some (FilterFailed (errorMessage err)))
   \<and> (history (handleApplyAdjustment_resume atob now c (Inl err) (fst (handleApplyAdjustment_begin p s)))
        = history s
    \<and> historyIndex (handleApplyAdjustment_resume atob now c (Inl err) (fst (handleApplyAdjustment_begin p s)))
        = historyIndex s
    \<and> \<not> isLoading (handleApplyAdjustment_resume atob now c (Inl err) (fst (handleApplyAdjustment_begin p s)))
    \<and> error (handleApplyAdjustment_resume atob now c (Inl err) (fst (handleApplyAdjustment_begin p s)))
        = Some (AdjustmentFailed (errorMessage err)))
   \<and> (history (handleApplyBackground_resume atob now c (Inl err) (fst (handleApplyBackground_begin p s)))
        = history s
    \<and> historyIndex (handleApplyBackground_resume atob now c (Inl err) (fst (handleApplyBackground_begin p s)))
        = historyIndex s
    \<and> \<not> isLoading (handleApplyBackground_resume atob now c (Inl err) (fst (handleApplyBackground_begin p s)))
    \<and> error (handleApplyBackground_resume atob now c (Inl err) (fst (handleApplyBackground_begin p s)))
        = Some (BackgroundFailed (errorMessage err)))
   \<and> (history (handleApplyFreestyle_resume atob now c (Inl err) (fst (handleApplyFreestyle_begin p s)))
        = history s
    \<and> historyIndex (handleApplyFreestyle_resume atob now c (Inl err) (fst (handleApplyFreestyle_begin p s)))
        = historyIndex s
    \<and> \<not> isLoading (handleApplyFreestyle_resume atob now c (Inl err) (fst (handleApplyFreestyle_begin p s)))
    \<and> error (handleApplyFreestyle_resume atob now c (Inl err) (fst (handleApplyFreestyle_begin p s)))
        = Some (FreestyleFailed (errorMessage err)))"
  using generate_fails [of atob now c err s] filter_fails [of atob now c err p s]
    adjustment_fails [of atob now c err p s] background_fails [of atob now c err p s]
    freestyle_fails [of atob now c err p s]
  by blast

text \<open>
  C10. Every handler that appends a version does it through \<^verbatim>\<open>addImageToHistory\<close>,
  which clears the crop selection and the completed crop: after a successful retouch,
  filter, adjustment, background change or freestyle edit, and after a successful crop,
  both are empty.
\<close>

theorem every_append_clears_crop:
  assumes "dataURLtoFile atob url nm = Inr f"
  shows "(crop (handleGenerate_resume atob now c (Inr url) s) = None
          \<and> completedCrop (handleGenerate_resume atob now c (Inr url) s) = None)
       \<and> (crop (handleApplyFilter_resume atob now c (Inr url) s) = None
          \<and> completedCrop (handleApplyFilter_resume atob now c (Inr url) s) = None)
       \<and> (crop (handleApplyAdjustment_resume atob now c (Inr url) s) = None
          \<and> completedCrop (handleApplyAdjustment_resume atob now c (Inr url) s) = None)
       \<and> (crop (handleApplyBackground_resume atob now c (Inr url) s) = None
          \<and> completedCrop (handleApplyBackground_resume atob now c (Inr url) s) = None)
       \<and> (crop (handleApplyFreestyle_resume atob now c (Inr url) s) = None
          \<and> completedCrop (handleApplyFreestyle_resume atob now c (Inr url) s) = None)
       \<and> (completedCrop s = Some crp \<and> getCroppedImg toDataURL has_ctx dpr img crp = Inr url \<longrightarrow>
            crop (handleCrop atob now toDataURL has_ctx dpr (Some img) s) = None
            \<and> completedCrop (handleCrop atob now toDataURL has_ctx dpr (Some img) s) = None)"
proof -
  have g: "crop (handleGenerate_resume atob now c (Inr url) s) = None
           \<and> completedCrop (handleGenerate_resume atob now c (Inr url) s) = None"
    by (simp add: generate_succeeds [OF assms] append_clears)
  have fi: "crop (handleApplyFilter_resume atob now c (Inr url) s) = None
           \<and> completedCrop (handleApplyFilter_resume atob now c (Inr url) s) = None"
    by (simp add: filter_succeeds [OF assms] append_clears)
  have a: "crop (handleApplyAdjustment_resume atob now c (Inr url) s) = None
           \<and> completedCrop (handleApplyAdjustment_resume atob now c (Inr url) s) = None"
    by (simp add: adjustment_succeeds [OF assms] append_clears)
  have b: "crop (handleApplyBackground_resume atob now c (Inr url) s) = None
           \<and> completedCrop (handleApplyBackground_resume atob now c (Inr url) s) = None"
    by (simp add: background_succeeds [OF assms] append_clears)
  have fr: "crop (handleApplyFreestyle_resume atob now c (Inr url) s) = None
           \<and> completedCrop (handleApplyFreestyle_resume atob now c (Inr url) s) = None"
    by (simp add: freestyle_succeeds [OF assms] append_clears)
  have cr: "completedCrop s = Some crp \<and> getCroppedImg toDataURL has_ctx dpr img crp = Inr url \<longrightarrow>
            crop (handleCrop atob now toDataURL has_ctx dpr (Some img) s) = None
            \<and> completedCrop (handleCrop atob now toDataURL has_ctx dpr (Some img) s) = None"
    by (auto simp add: crop_succeeds [OF _ _ assms] append_clears)
  from g fi a b fr cr show ?thesis by blast
qed

text \<open>
  On the crop tab with a selection: a filter that succeeds clears the selection, and so
  does the crop itself.
\<close>

theorem every_append_clears_crop_witness:
  "dataURLtoFile sample_atob sample_url ''x''
     = Inr \<lparr>bits = [81, 81, 61, 61], fname = ''x'', mime = ''image/png''\<rparr>
   \<and> completedCrop cropping = Some whole_crop
   \<and> getCroppedImg sample_toDataURL True (Fin 1) half_size whole_crop = Inr sample_url
   \<and> crop cropping \<noteq> None
   \<and> crop (handleApplyFilter_resume sample_atob 7 cropping (Inr sample_url) cropping) = None
   \<and> completedCrop (handleApplyFilter_resume sample_atob 7 cropping (Inr sample_url) cropping) = None
   \<and> crop (handleCrop sample_atob 7 sample_toDataURL True (Fin 1) (Some half_size) cropping) = None
   \<and> completedCrop (handleCrop sample_atob 7 sample_toDataURL True (Fin 1) (Some half_size) cropping)
       = None"
proof -
  have u: "dataURLtoFile sample_atob sample_url ''x''
             = Inr \<lparr>bits = [81, 81, 61, 61], fname = ''x'', mime = ''image/png''\<rparr>"
    by (rule sample_url_converts)
  have cc: "completedCrop cropping = Some whole_crop \<and> crop cropping \<noteq> None"
    by (simp add: cropping_def initial_def)
  have gc: "getCroppedImg sample_toDataURL True (Fin 1) half_size whole_crop = Inr sample_url"
    by (simp add: getCroppedImg_def getCroppedImg_canvas_def Let_def sample_toDataURL_def)
  show ?thesis
    using every_append_clears_crop
            [OF u, of 7 cropping cropping whole_crop sample_toDataURL True "Fin 1" half_size]
          u cc gc
    by simp
qed

end
